theory Spec2Isabelle
  imports Main "HOL-Library.Word"
begin

unbundle bit_operations_syntax

section \<open>The networking stack of pkg/tcpip/stack/stack.go\<close>

text \<open>
  A shallow embedding of the parts of \<^verbatim>\<open>stack.go\<close> that own the route table, the NIC map
  and the endpoint factories. Go's locks are not modelled: every method below is taken
  as one atomic step on the stack's state, which is what holding \<^verbatim>\<open>mu\<close> and \<^verbatim>\<open>routeMu\<close>
  gives the source.
\<close>

subsection \<open>Values of package tcpip\<close>

type_synonym NICID = "32 word"  \<comment> \<open>\<^verbatim>\<open>type NICID int32\<close>, read with \<open>sint\<close> where the sign matters\<close>
type_synonym NetworkProtocolNumber = "32 word"
type_synonym TransportProtocolNumber = "32 word"
type_synonym Address = "8 word list"  \<comment> \<open>the bytes of a \<^verbatim>\<open>tcpip.Address\<close>; the zero value is \<open>[]\<close>\<close>

definition BitLen :: "Address \<Rightarrow> nat" where
  "BitLen a = 8 * length a"

datatype Error =
    ErrUnknownProtocol | ErrUnknownNICID | ErrInvalidNICID | ErrDuplicateNICID
  | ErrNotPermitted | ErrBadLocalAddress | ErrNetworkUnreachable | ErrHostUnreachable
  | ErrNoSuchFile | ErrNotSupported
  | ErrOther nat  \<comment> \<open>any other error a collaborator hands back\<close>

text \<open>
  Modelled from the spec: \<^verbatim>\<open>tcpip.Subnet\<close> and \<^verbatim>\<open>tcpip.Route\<close> are not under src/. The spec
  gives a route as destination CIDR, gateway, outgoing NIC id, source hint and MTU, and
  \<^verbatim>\<open>Destination.Prefix()\<close> as the prefix length of the CIDR.
\<close>

record Subnet =
  ID :: Address
  Prefix :: int

record Route =
  Destination :: Subnet
  Gateway :: Address
  NIC :: NICID
  SourceHint :: Address
  MTU :: "32 word"

text \<open>
  Modelled from the spec: \<^verbatim>\<open>Route.Equal\<close> is not under src/. Routes are equal by lookup
  key, which of the fields above is the destination and the NIC.
\<close>

definition Equal :: "Route \<Rightarrow> Route \<Rightarrow> bool" where
  "Equal r to \<longleftrightarrow> Destination r = Destination to \<and> NIC r = NIC to"

definition zeroRoute :: Route where  \<comment> \<open>\<^verbatim>\<open>tcpip.Route{}\<close>\<close>
  "zeroRoute = \<lparr>Destination = \<lparr>ID = [], Prefix = 0\<rparr>, Gateway = [], NIC = 0,
                SourceHint = [], MTU = 0\<rparr>"

subsection \<open>Collaborators of the stack\<close>

type_synonym AddressEndpoint = nat  \<comment> \<open>an opaque \<^verbatim>\<open>AssignableAddressEndpoint\<close>\<close>
type_synonym Endpoint = nat         \<comment> \<open>an opaque \<^verbatim>\<open>tcpip.Endpoint\<close>\<close>
type_synonym WaiterQueue = nat      \<comment> \<open>an opaque \<^verbatim>\<open>*waiter.Queue\<close>\<close>
type_synonym NetworkProtocol = nat  \<comment> \<open>an opaque \<^verbatim>\<open>NetworkProtocol\<close>\<close>

text \<open>
  A link endpoint as the stack sees it: its identity, and, when it implements the
  \<^verbatim>\<open>CoordinatorNIC\<close> interface, what \<^verbatim>\<open>DelNIC\<close> answers for the NIC with a given id.
\<close>

record LinkEndpoint =
  linkID :: nat
  CoordinatorNIC :: "(NICID \<Rightarrow> Error option) option"

text \<open>
  A \<^verbatim>\<open>*nic\<close> as the stack sees it (nic.go is not under src/): the fields the stack reads
  and the answers of the methods it calls. \<open>Primary\<close> holds the link endpoint of the
  primary NIC, the only part of it the stack touches. \<open>remove\<close> answers whether the
  deferred action is non-nil, and the error.
\<close>

record nic =
  nic_id :: NICID
  name :: string
  Enabled :: bool
  Primary :: "LinkEndpoint option"
  NetworkLinkEndpoint :: LinkEndpoint
  primaryEndpoint :: "NetworkProtocolNumber \<Rightarrow> Address \<Rightarrow> Address \<Rightarrow> AddressEndpoint option"
  findEndpoint :: "NetworkProtocolNumber \<Rightarrow> Address \<Rightarrow> AddressEndpoint option"
  getAddressOrCreateTempInner :: "NetworkProtocolNumber \<Rightarrow> Address \<Rightarrow> AddressEndpoint option"
  hasAddress :: "NetworkProtocolNumber \<Rightarrow> Address \<Rightarrow> bool"
  nic_CheckLocalAddress :: "NetworkProtocolNumber \<Rightarrow> Address \<Rightarrow> bool"
  forwarding :: "NetworkProtocolNumber \<Rightarrow> Error + bool"
  remove :: "bool \<Rightarrow> bool \<times> Error option"

record NICOptions =
  Name :: string
  Disabled :: bool

text \<open>
  The raw factory and a transport protocol, as the answers of the constructors the
  stack forwards to: the endpoint and the error each of them returns.
\<close>

record RawFactory =
  NewUnassociatedEndpoint ::
    "NetworkProtocolNumber \<Rightarrow> TransportProtocolNumber \<Rightarrow> WaiterQueue \<Rightarrow> Endpoint option \<times> Error option"
  factory_NewPacketEndpoint ::
    "bool \<Rightarrow> NetworkProtocolNumber \<Rightarrow> WaiterQueue \<Rightarrow> Endpoint option \<times> Error option"

record transportProtocolState =
  proto_NewEndpoint :: "NetworkProtocolNumber \<Rightarrow> WaiterQueue \<Rightarrow> Endpoint option \<times> Error option"
  proto_NewRawEndpoint :: "NetworkProtocolNumber \<Rightarrow> WaiterQueue \<Rightarrow> Endpoint option \<times> Error option"

text \<open>
  The calls the stack makes on a NIC or its link endpoint that change them. Their
  effect lies outside the stack, so the model keeps the calls, in order.
\<close>

datatype Call =
    Call_DelNIC NICID
  | Call_remove NICID bool
  | Call_deferAct NICID
  | Call_setForwarding NICID NetworkProtocolNumber
  | Call_SetOnCloseAction NICID
  | Call_enable NICID

subsection \<open>The stack\<close>

text \<open>
  The fields of \<^verbatim>\<open>Stack\<close> that the modelled methods read or write. The NIC map is an
  association list: its order is the order in which a \<^verbatim>\<open>range\<close> over the Go map visits
  the NICs, which Go leaves open. \<open>calls\<close> is not a field of the source: it records the
  calls made on NICs and link endpoints.
\<close>

record Stack =
  transportProtocols :: "TransportProtocolNumber \<rightharpoonup> transportProtocolState"
  networkProtocols :: "NetworkProtocolNumber \<rightharpoonup> NetworkProtocol"
  rawFactory :: "RawFactory option"
  routeTable :: "Route list"
  nics :: "(NICID \<times> nic) list"
  defaultForwardingEnabled :: "NetworkProtocolNumber list"
  nicIDGen :: "32 word"
  handleLocal :: bool
  calls :: "Call list"

datatype 'a outcome = Panic | Return 'a

subsection \<open>The route table\<close>

text \<open>
  \<^verbatim>\<open>tcpip.RouteList\<close> is a linked list (not under src/); the model holds its entries as a
  list, front first. \<open>addRouteLoop\<close> is the loop of \<^verbatim>\<open>addRouteLocked\<close>: walk from the
  front, insert before the first entry whose prefix is smaller, else push back.
\<close>

fun addRouteLoop :: "Route \<Rightarrow> Route list \<Rightarrow> Route list" where
  "addRouteLoop route [] = [route]"
| "addRouteLoop route (n # rest) =
     (if Prefix (Destination n) < Prefix (Destination route) then route # n # rest
      else n # addRouteLoop route rest)"

definition addRouteLocked :: "Route \<Rightarrow> Stack \<Rightarrow> Stack" where
  "addRouteLocked route s = s\<lparr>routeTable := addRouteLoop route (routeTable s)\<rparr>"

definition AddRoute :: "Route \<Rightarrow> Stack \<Rightarrow> Stack" where
  "AddRoute route s = addRouteLocked route s"

text \<open>\<^verbatim>\<open>SetRouteTable\<close>: reset the list, then add the routes of the table one by one.\<close>

fun setRouteTableLoop :: "Route list \<Rightarrow> Stack \<Rightarrow> Stack" where
  "setRouteTableLoop [] s = s"
| "setRouteTableLoop (r # table) s = setRouteTableLoop table (addRouteLocked r s)"

definition SetRouteTable :: "Route list \<Rightarrow> Stack \<Rightarrow> Stack" where
  "SetRouteTable table s = setRouteTableLoop table (s\<lparr>routeTable := []\<rparr>)"

text \<open>\<^verbatim>\<open>GetRouteTable\<close>: copy the entries, front to back, into a fresh slice.\<close>

fun getRouteTableLoop :: "Route list \<Rightarrow> Route list \<Rightarrow> Route list" where
  "getRouteTableLoop [] table = table"
| "getRouteTableLoop (r # rest) table = getRouteTableLoop rest (table @ [r])"

definition GetRouteTable :: "Stack \<Rightarrow> Route list" where
  "GetRouteTable s = getRouteTableLoop (routeTable s) []"

text \<open>
  \<^verbatim>\<open>removeRoutesLocked\<close>: walk the list, unlink each entry that matches and count it.
  \<open>kept\<close> is the part of the list already walked, \<open>count\<close> the counter.
\<close>

fun removeRoutesLoop :: "(Route \<Rightarrow> bool) \<Rightarrow> Route list \<Rightarrow> Route list \<Rightarrow> int \<Rightarrow> Route list \<times> int" where
  "removeRoutesLoop match kept [] count = (kept, count)"
| "removeRoutesLoop match kept (route # next) count =
     (if match route then removeRoutesLoop match kept next (count + 1)
      else removeRoutesLoop match (kept @ [route]) next count)"

definition removeRoutesLocked :: "(Route \<Rightarrow> bool) \<Rightarrow> Stack \<Rightarrow> int \<times> Stack" where
  "removeRoutesLocked match s =
     (case removeRoutesLoop match [] (routeTable s) 0 of
        (table, count) \<Rightarrow> (count, s\<lparr>routeTable := table\<rparr>))"

definition RemoveRoutes :: "(Route \<Rightarrow> bool) \<Rightarrow> Stack \<Rightarrow> int \<times> Stack" where
  "RemoveRoutes match s = removeRoutesLocked match s"

definition ReplaceRoute :: "Route \<Rightarrow> Stack \<Rightarrow> Stack" where
  "ReplaceRoute route s =
     addRouteLocked route (snd (removeRoutesLocked (\<lambda>rt. Equal rt route) s))"

text \<open>A sequence of calls of \<^verbatim>\<open>AddRoute\<close> and \<^verbatim>\<open>SetRouteTable\<close>, run in order.\<close>

datatype RouteCall = Call_AddRoute Route | Call_SetRouteTable "Route list"

fun runRouteCalls :: "RouteCall list \<Rightarrow> Stack \<Rightarrow> Stack" where
  "runRouteCalls [] s = s"
| "runRouteCalls (Call_AddRoute r # cs) s = runRouteCalls cs (AddRoute r s)"
| "runRouteCalls (Call_SetRouteTable t # cs) s = runRouteCalls cs (SetRouteTable t s)"

text \<open>Longest prefix first: no entry has a smaller prefix than a later one.\<close>

definition prefixSorted :: "Route list \<Rightarrow> bool" where
  "prefixSorted table =
     sorted_wrt (\<lambda>a b. Prefix (Destination b) \<le> Prefix (Destination a)) table"

subsection \<open>Endpoint construction\<close>

text \<open>
  \<^verbatim>\<open>NewRawEndpoint\<close> also writes a rate-limited log line when the factory is nil; the log
  is not part of the model. The factory's \<^verbatim>\<open>*Stack\<close> argument is the receiver.
\<close>

definition NewEndpoint ::
  "Stack \<Rightarrow> TransportProtocolNumber \<Rightarrow> NetworkProtocolNumber \<Rightarrow> WaiterQueue
     \<Rightarrow> Endpoint option \<times> Error option" where
  "NewEndpoint s transport network waiterQueue =
     (case transportProtocols s transport of
        None \<Rightarrow> (None, Some ErrUnknownProtocol)
      | Some t \<Rightarrow> proto_NewEndpoint t network waiterQueue)"

definition NewRawEndpoint ::
  "Stack \<Rightarrow> TransportProtocolNumber \<Rightarrow> NetworkProtocolNumber \<Rightarrow> WaiterQueue \<Rightarrow> bool
     \<Rightarrow> Endpoint option \<times> Error option" where
  "NewRawEndpoint s transport network waiterQueue associated =
     (case rawFactory s of
        None \<Rightarrow> (None, Some ErrNotPermitted)
      | Some factory \<Rightarrow>
          if \<not> associated then NewUnassociatedEndpoint factory network transport waiterQueue
          else (case transportProtocols s transport of
                  None \<Rightarrow> (None, Some ErrUnknownProtocol)
                | Some t \<Rightarrow> proto_NewRawEndpoint t network waiterQueue))"

definition NewPacketEndpoint ::
  "Stack \<Rightarrow> bool \<Rightarrow> NetworkProtocolNumber \<Rightarrow> WaiterQueue \<Rightarrow> Endpoint option \<times> Error option" where
  "NewPacketEndpoint s cooked netProto waiterQueue =
     (case rawFactory s of
        None \<Rightarrow> (None, Some ErrNotPermitted)
      | Some factory \<Rightarrow> factory_NewPacketEndpoint factory cooked netProto waiterQueue)"

subsection \<open>NIC lifecycle\<close>

text \<open>
  The parts of nic.go (not under src/) that build or change a NIC, taken as parameters:
  \<^verbatim>\<open>newNIC\<close>, and the answers of \<^verbatim>\<open>setForwarding\<close> and \<^verbatim>\<open>enable\<close> together with the NIC
  as they leave it.
\<close>

record NicDeps =
  newNIC :: "NICID \<Rightarrow> LinkEndpoint \<Rightarrow> NICOptions \<Rightarrow> nic"
  setForwarding :: "nic \<Rightarrow> NetworkProtocolNumber \<Rightarrow> bool \<Rightarrow> (Error + bool) \<times> nic"
  enable :: "nic \<Rightarrow> Error option \<times> nic"

definition NextNICID :: "Stack \<Rightarrow> (NICID \<times> Stack) outcome" where
  "NextNICID s =
     (let next = nicIDGen s + 1
      in if sint next < 0 then Panic else Return (next, s\<lparr>nicIDGen := next\<rparr>))"

definition HasNIC :: "Stack \<Rightarrow> NICID \<Rightarrow> bool" where
  "HasNIC s nid = (case map_of (nics s) nid of None \<Rightarrow> False | Some _ \<Rightarrow> True)"

text \<open>The loop over \<^verbatim>\<open>defaultForwardingEnabled\<close>: an error of \<^verbatim>\<open>setForwarding\<close> panics.\<close>

fun setForwardingLoop :: "NicDeps \<Rightarrow> NetworkProtocolNumber list \<Rightarrow> nic \<Rightarrow> nic outcome" where
  "setForwardingLoop nd [] n = Return n"
| "setForwardingLoop nd (proto # protos) n =
     (case setForwarding nd n proto True of
        (Inl err, _) \<Rightarrow> Panic
      | (Inr _, n') \<Rightarrow> setForwardingLoop nd protos n')"

text \<open>
  \<^verbatim>\<open>CreateNICWithOptions\<close>. The new NIC goes to the end of the association list.
  \<^verbatim>\<open>enable\<close> works on the NIC that is already in the map, so the entry is updated.
\<close>

definition CreateNICWithOptions ::
  "NicDeps \<Rightarrow> NICID \<Rightarrow> LinkEndpoint \<Rightarrow> NICOptions \<Rightarrow> Stack \<Rightarrow> (Error option \<times> Stack) outcome" where
  "CreateNICWithOptions nd nid ep opts s =
     (if nid = 0 then Return (Some ErrInvalidNICID, s)
      else if map_of (nics s) nid \<noteq> None then Return (Some ErrDuplicateNICID, s)
      else if Name opts \<noteq> [] \<and> list_ex (\<lambda>(k, n). name n = Name opts) (nics s)
        then Return (Some ErrDuplicateNICID, s)
      else
        (case setForwardingLoop nd (defaultForwardingEnabled s) (newNIC nd nid ep opts) of
           Panic \<Rightarrow> Panic
         | Return n \<Rightarrow>
             (let s1 = s\<lparr>nics := nics s @ [(nid, n)],
                         calls := calls s @ map (Call_setForwarding nid) (defaultForwardingEnabled s)
                                    @ [Call_SetOnCloseAction nid]\<rparr>
              in if \<not> Disabled opts then
                   (case enable nd n of
                      (err, n') \<Rightarrow>
                        Return (err, s1\<lparr>nics := nics s @ [(nid, n')],
                                       calls := calls s1 @ [Call_enable nid]\<rparr>))
                 else Return (None, s1))))"

definition CreateNIC :: "NicDeps \<Rightarrow> NICID \<Rightarrow> LinkEndpoint \<Rightarrow> Stack \<Rightarrow> (Error option \<times> Stack) outcome" where
  "CreateNIC nd nid ep s = CreateNICWithOptions nd nid ep \<lparr>Name = [], Disabled = False\<rparr> s"

text \<open>The loop of \<^verbatim>\<open>removeNICLocked\<close> that unlinks the routes of the NIC.\<close>

fun removeNICRoutesLoop :: "NICID \<Rightarrow> Route list \<Rightarrow> Route list \<Rightarrow> Route list" where
  "removeNICRoutesLoop nid kept [] = kept"
| "removeNICRoutesLoop nid kept (r # next) =
     (if NIC r = nid then removeNICRoutesLoop nid kept next
      else removeNICRoutesLoop nid (kept @ [r]) next)"

text \<open>
  \<^verbatim>\<open>removeNICLocked\<close> returns whether the deferred action is non-nil, and the error. The
  type assertion on the primary's link endpoint panics when it is no \<^verbatim>\<open>CoordinatorNIC\<close>;
  an error of \<^verbatim>\<open>DelNIC\<close> returns at once, after the NIC has left the map.
\<close>

definition removeNICLocked :: "Stack \<Rightarrow> NICID \<Rightarrow> ((bool \<times> Error option) \<times> Stack) outcome" where
  "removeNICLocked s nid =
     (case map_of (nics s) nid of
        None \<Rightarrow> Return ((False, Some ErrUnknownNICID), s)
      | Some n \<Rightarrow>
          (let s1 = s\<lparr>nics := filter (\<lambda>(k, _). k \<noteq> nid) (nics s)\<rparr>;
               purge = (\<lambda>s2. Return (remove n True,
                  s2\<lparr>routeTable := removeNICRoutesLoop nid [] (routeTable s2),
                     calls := calls s2 @ [Call_remove nid True]\<rparr>))
           in case Primary n of
                None \<Rightarrow> purge s1
              | Some primaryEP \<Rightarrow>
                  (case CoordinatorNIC primaryEP of
                     None \<Rightarrow> Panic
                   | Some DelNIC \<Rightarrow>
                       (let s2 = s1\<lparr>calls := calls s1 @ [Call_DelNIC nid]\<rparr>
                        in case DelNIC (nic_id n) of
                             Some err \<Rightarrow> Return ((False, Some err), s2)
                           | None \<Rightarrow> purge s2))))"

definition RemoveNIC :: "Stack \<Rightarrow> NICID \<Rightarrow> (Error option \<times> Stack) outcome" where
  "RemoveNIC s nid =
     (case removeNICLocked s nid of
        Panic \<Rightarrow> Panic
      | Return ((deferAct, err), s') \<Rightarrow>
          Return (err, if deferAct then s'\<lparr>calls := calls s' @ [Call_deferAct nid]\<rparr> else s'))"

text \<open>
  Modelled from the spec: \<^verbatim>\<open>header.IPv4ProtocolNumber\<close> is not under src/; the spec's
  scenarios name IPv4 by the number 0x0800.
\<close>

definition IPv4ProtocolNumber :: NetworkProtocolNumber where
  "IPv4ProtocolNumber = 0x0800"

definition CheckLocalAddress :: "Stack \<Rightarrow> NICID \<Rightarrow> NetworkProtocolNumber \<Rightarrow> Address \<Rightarrow> NICID" where
  "CheckLocalAddress s nicID protocol addr =
     (if nicID \<noteq> 0 then
        (case map_of (nics s) nicID of
           None \<Rightarrow> 0
         | Some n \<Rightarrow>
             if protocol = IPv4ProtocolNumber then nic_id n
             else if nic_CheckLocalAddress n protocol addr then nic_id n
             else 0)
      else
        (case find (\<lambda>n. nic_CheckLocalAddress n protocol addr) (map snd (nics s)) of
           Some n \<Rightarrow> nic_id n
         | None \<Rightarrow> 0))"

text \<open>
  \<^verbatim>\<open>SetNICStack\<close> works on two stacks that may be the same object, so it runs on a store
  of stacks, addressed by the pointers \<open>sp\<close> and \<open>peer\<close>. Every NIC is created around a
  \<^verbatim>\<open>LinkEndpoint\<close>, so the type assertion on its link endpoint succeeds.
\<close>

type_synonym StackPtr = nat
type_synonym Store = "StackPtr \<Rightarrow> Stack"

definition SetNICStack ::
  "NicDeps \<Rightarrow> Store \<Rightarrow> StackPtr \<Rightarrow> NICID \<Rightarrow> StackPtr \<Rightarrow> ((NICID \<times> Error option) \<times> Store) outcome" where
  "SetNICStack nd st sp nid peer =
     (case map_of (nics (st sp)) nid of
        None \<Rightarrow> Return ((0, Some ErrUnknownNICID), st)
      | Some n \<Rightarrow>
          if sp = peer then Return ((nid, None), st)
          else
            (let s1 = (st sp)\<lparr>nics := filter (\<lambda>(k, _). k \<noteq> nid) (nics (st sp))\<rparr>;
                 s2 = snd (RemoveRoutes (\<lambda>r. NIC r = nid) s1);
                 ne = NetworkLinkEndpoint n;
                 (deferAct, err) = remove n False;
                 s3 = s2\<lparr>calls := calls s2 @ [Call_remove nid False]
                               @ (if deferAct then [Call_deferAct nid] else [])\<rparr>;
                 st1 = st(sp := s3)
             in case err of
                  Some e \<Rightarrow> Return ((0, Some e), st1)
                | None \<Rightarrow>
                    (case NextNICID (st1 peer) of
                       Panic \<Rightarrow> Panic
                     | Return (nid', p1) \<Rightarrow>
                         (case CreateNICWithOptions nd nid' ne \<lparr>Name = name n, Disabled = False\<rparr> p1 of
                            Panic \<Rightarrow> Panic
                          | Return (e, p2) \<Rightarrow> Return ((nid', e), st1(peer := p2))))))"

subsection \<open>Routing\<close>

text \<open>
  Modelled from the spec: route.go is not under src/. A \<^verbatim>\<open>*Route\<close> is the record of the
  constructor that built it and of its arguments, in the order of the source:
  \<^verbatim>\<open>makeRoute(netProto, gateway, localAddr, remoteAddr, outgoingNIC, localAddressNIC,
  localAddressEndpoint, handleLocal, multicastLoop, mtu)\<close>,
  \<^verbatim>\<open>makeLocalRoute(netProto, localAddr, remoteAddr, outgoingNIC, localAddressNIC,
  localAddressEndpoint)\<close>, and the route of
  \<^verbatim>\<open>constructAndValidateRoute(netProto, addressEndpoint, localAddressNIC, outgoingNIC,
  gateway, localAddr, remoteAddr, handleLocal, multicastLoop, mtu)\<close> when it is not nil.
\<close>

datatype StackRoute =
    makeRoute NetworkProtocolNumber Address Address Address nic nic AddressEndpoint bool bool "32 word"
  | makeLocalRoute NetworkProtocolNumber Address Address nic nic AddressEndpoint
  | validatedRoute NetworkProtocolNumber AddressEndpoint nic nic Address Address Address bool bool "32 word"

text \<open>
  The functions of packages header and tcpip and of route.go that \<^verbatim>\<open>FindRoute\<close> calls
  and that are not under src/, taken as parameters: the address classes, subnet
  membership, whether \<^verbatim>\<open>constructAndValidateRoute\<close> accepts a route, and
  \<^verbatim>\<open>Route.IsOutboundBroadcast\<close>.
\<close>

record Deps =
  IsV6LinkLocalUnicastAddress :: "Address \<Rightarrow> bool"
  IsV6LinkLocalMulticastAddress :: "Address \<Rightarrow> bool"
  IPv4Broadcast :: Address
  IsV4MulticastAddress :: "Address \<Rightarrow> bool"
  IsV6MulticastAddress :: "Address \<Rightarrow> bool"
  IsV4LoopbackAddress :: "Address \<Rightarrow> bool"
  IsV6LoopbackAddress :: "Address \<Rightarrow> bool"
  Contains :: "Subnet \<Rightarrow> Address \<Rightarrow> bool"
  validates :: "StackRoute \<Rightarrow> bool"
  IsOutboundBroadcast :: "StackRoute \<Rightarrow> bool"

definition constructAndValidateRoute ::
  "Deps \<Rightarrow> NetworkProtocolNumber \<Rightarrow> AddressEndpoint \<Rightarrow> nic \<Rightarrow> nic \<Rightarrow> Address \<Rightarrow> Address \<Rightarrow> Address
     \<Rightarrow> bool \<Rightarrow> bool \<Rightarrow> 32 word \<Rightarrow> StackRoute option" where
  "constructAndValidateRoute d netProto addressEndpoint localAddressNIC outgoingNIC gateway
       localAddr remoteAddr hl multicastLoop mtu =
     (let r = validatedRoute netProto addressEndpoint localAddressNIC outgoingNIC gateway
                localAddr remoteAddr hl multicastLoop mtu
      in if validates d r then Some r else None)"

definition CheckNetworkProtocol :: "Stack \<Rightarrow> NetworkProtocolNumber \<Rightarrow> bool" where
  "CheckNetworkProtocol s protocol =
     (case networkProtocols s protocol of None \<Rightarrow> False | Some _ \<Rightarrow> True)"

definition getAddressEP ::
  "nic \<Rightarrow> Address \<Rightarrow> Address \<Rightarrow> Address \<Rightarrow> NetworkProtocolNumber \<Rightarrow> AddressEndpoint option" where
  "getAddressEP n localAddr remoteAddr srcHint netProto =
     (if BitLen localAddr = 0 then primaryEndpoint n netProto remoteAddr srcHint
      else findEndpoint n netProto localAddr)"

text \<open>
  \<^verbatim>\<open>findLocalRouteFromNICRLocked\<close>. The loop over the NICs stops at the first one that
  has the remote address, which is \<open>find\<close> on the NICs in iteration order.
\<close>

definition findLocalRouteFromNICRLocked ::
  "Deps \<Rightarrow> Stack \<Rightarrow> nic \<Rightarrow> Address \<Rightarrow> Address \<Rightarrow> NetworkProtocolNumber \<Rightarrow> StackRoute option" where
  "findLocalRouteFromNICRLocked d s localAddressNIC localAddr remoteAddr netProto =
     (case getAddressOrCreateTempInner localAddressNIC netProto localAddr of
        None \<Rightarrow> None
      | Some localAddressEndpoint \<Rightarrow>
          (let outgoingNIC =
                 (if hasAddress localAddressNIC netProto remoteAddr then Some localAddressNIC
                  else find (\<lambda>n. hasAddress n netProto remoteAddr) (map snd (nics s)))
           in case outgoingNIC of
                None \<Rightarrow> None
              | Some out \<Rightarrow>
                  (let r = makeLocalRoute netProto localAddr remoteAddr out localAddressNIC
                             localAddressEndpoint
                   in if IsOutboundBroadcast d r then None else Some r)))"

text \<open>A loop over the NICs that returns the first route that is not nil.\<close>

fun firstRoute :: "(nic \<Rightarrow> StackRoute option) \<Rightarrow> nic list \<Rightarrow> StackRoute option" where
  "firstRoute f [] = None"
| "firstRoute f (n # ns) = (case f n of Some r \<Rightarrow> Some r | None \<Rightarrow> firstRoute f ns)"

definition findLocalRouteRLocked ::
  "Deps \<Rightarrow> Stack \<Rightarrow> NICID \<Rightarrow> Address \<Rightarrow> Address \<Rightarrow> NetworkProtocolNumber \<Rightarrow> StackRoute option" where
  "findLocalRouteRLocked d s localAddressNICID localAddr0 remoteAddr netProto =
     (let localAddr = (if BitLen localAddr0 = 0 then remoteAddr else localAddr0)
      in if localAddressNICID = 0 then
           firstRoute (\<lambda>localAddressNIC.
               findLocalRouteFromNICRLocked d s localAddressNIC localAddr remoteAddr netProto)
             (map snd (nics s))
         else (case map_of (nics s) localAddressNICID of
                 Some localAddressNIC \<Rightarrow>
                   findLocalRouteFromNICRLocked d s localAddressNIC localAddr remoteAddr netProto
               | None \<Rightarrow> None))"

definition isNICForwarding :: "nic \<Rightarrow> NetworkProtocolNumber \<Rightarrow> bool outcome" where
  "isNICForwarding n proto =
     (case forwarding n proto of
        Inr fwd \<Rightarrow> Return fwd
      | Inl ErrUnknownProtocol \<Rightarrow> Panic
      | Inl ErrNotSupported \<Rightarrow> Return False
      | Inl _ \<Rightarrow> Panic)"

definition findRouteWithLocalAddrFromAnyInterfaceRLocked ::
  "Deps \<Rightarrow> Stack \<Rightarrow> nic \<Rightarrow> Address \<Rightarrow> Address \<Rightarrow> Address \<Rightarrow> Address \<Rightarrow> NetworkProtocolNumber
     \<Rightarrow> bool \<Rightarrow> 32 word \<Rightarrow> StackRoute option" where
  "findRouteWithLocalAddrFromAnyInterfaceRLocked d s outgoingNIC localAddr remoteAddr srcHint
       gateway netProto multicastLoop mtu =
     firstRoute (\<lambda>aNIC.
         case getAddressEP aNIC localAddr remoteAddr srcHint netProto of
           None \<Rightarrow> None
         | Some addressEndpoint \<Rightarrow>
             constructAndValidateRoute d netProto addressEndpoint aNIC outgoingNIC gateway
               localAddr remoteAddr (handleLocal s) multicastLoop mtu)
       (map snd (nics s))"

text \<open>
  One turn of the loop of \<^verbatim>\<open>FindRoute\<close> over the route table: go on to the next entry
  with the chosen route as given, return a route, or panic.
\<close>

datatype Step = Continue Route | Done StackRoute | StepPanic

definition findRouteStep ::
  "Deps \<Rightarrow> Stack \<Rightarrow> NICID \<Rightarrow> Address \<Rightarrow> Address \<Rightarrow> NetworkProtocolNumber \<Rightarrow> bool \<Rightarrow> bool \<Rightarrow> bool
     \<Rightarrow> Route \<Rightarrow> Route \<Rightarrow> Step" where
  "findRouteStep d s nid localAddr remoteAddr netProto multicastLoop needRoute
       onlyGlobalAddresses route chosenRoute =
     (if BitLen remoteAddr \<noteq> 0 \<and> \<not> Contains d (Destination route) remoteAddr
        then Continue chosenRoute
      else
        (case map_of (nics s) (NIC route) of
           None \<Rightarrow> Continue chosenRoute
         | Some n \<Rightarrow>
             if \<not> Enabled n then Continue chosenRoute
             else
               (case (if nid = 0 \<or> nid = NIC route
                      then getAddressEP n localAddr remoteAddr (SourceHint route) netProto
                      else None) of
                  Some addressEndpoint \<Rightarrow>
                    (case constructAndValidateRoute d netProto addressEndpoint n n
                            (if needRoute then Gateway route else []) localAddr remoteAddr
                            (handleLocal s) multicastLoop (MTU route) of
                       None \<Rightarrow> StepPanic
                     | Some r \<Rightarrow> Done r)
                | None \<Rightarrow>
                    if onlyGlobalAddresses \<and> Equal chosenRoute zeroRoute then
                      (case isNICForwarding n netProto of
                         Panic \<Rightarrow> StepPanic
                       | Return fwd \<Rightarrow>
                           if fwd then
                             (if nid \<noteq> 0 \<or> localAddr \<noteq> [] then Continue route
                              else
                                (case findRouteWithLocalAddrFromAnyInterfaceRLocked d s n
                                        localAddr remoteAddr (SourceHint route) (Gateway route)
                                        netProto multicastLoop (MTU route) of
                                   Some r \<Rightarrow> Done r
                                 | None \<Rightarrow> Continue chosenRoute))
                           else Continue chosenRoute)
                    else Continue chosenRoute)))"

fun findRouteLoop ::
  "(Route \<Rightarrow> Route \<Rightarrow> Step) \<Rightarrow> Route list \<Rightarrow> Route \<Rightarrow> (StackRoute option \<times> Route) outcome" where
  "findRouteLoop step [] chosenRoute = Return (None, chosenRoute)"
| "findRouteLoop step (route # rest) chosenRoute =
     (case step route chosenRoute of
        Continue chosenRoute' \<Rightarrow> findRouteLoop step rest chosenRoute'
      | Done r \<Rightarrow> Return (Some r, chosenRoute)
      | StepPanic \<Rightarrow> Panic)"

text \<open>
  The part of \<^verbatim>\<open>FindRoute\<close> that consults the route table: from
  \<^verbatim>\<open>onlyGlobalAddresses\<close> to the end of the function.
\<close>

definition findRouteInTable ::
  "Deps \<Rightarrow> Stack \<Rightarrow> NICID \<Rightarrow> Address \<Rightarrow> Address \<Rightarrow> NetworkProtocolNumber \<Rightarrow> bool \<Rightarrow> bool \<Rightarrow> bool
     \<Rightarrow> (Error + StackRoute) outcome" where
  "findRouteInTable d s nid localAddr remoteAddr netProto multicastLoop needRoute isLinkLocal =
     (let onlyGlobalAddresses = (\<not> IsV6LinkLocalUnicastAddress d localAddr \<and> \<not> isLinkLocal);
          fallback =
            (if needRoute then Return (Inl ErrHostUnreachable)
             else if IsV6LoopbackAddress d remoteAddr then Return (Inl ErrBadLocalAddress)
             else Return (Inl ErrNetworkUnreachable))
      in case findRouteLoop
                (findRouteStep d s nid localAddr remoteAddr netProto multicastLoop needRoute
                   onlyGlobalAddresses)
                (routeTable s) zeroRoute of
           Panic \<Rightarrow> Panic
         | Return (Some r, _) \<Rightarrow> Return (Inr r)
         | Return (None, chosenRoute) \<Rightarrow>
             if \<not> Equal chosenRoute zeroRoute then
               (case map_of (nics s) (NIC chosenRoute) of
                  None \<Rightarrow> Panic
                | Some n \<Rightarrow>
                    (let gateway = (if needRoute then Gateway chosenRoute else [])
                     in if nid \<noteq> 0 then
                          (case (case map_of (nics s) nid of
                                   None \<Rightarrow> None
                                 | Some aNIC \<Rightarrow>
                                     (case getAddressEP aNIC localAddr remoteAddr
                                             (SourceHint chosenRoute) netProto of
                                        None \<Rightarrow> None
                                      | Some addressEndpoint \<Rightarrow>
                                          constructAndValidateRoute d netProto addressEndpoint
                                            aNIC n gateway localAddr remoteAddr (handleLocal s)
                                            multicastLoop (MTU chosenRoute))) of
                             Some r \<Rightarrow> Return (Inr r)
                           | None \<Rightarrow> Return (Inl ErrHostUnreachable))
                        else
                          (case findRouteWithLocalAddrFromAnyInterfaceRLocked d s n localAddr
                                  remoteAddr (SourceHint chosenRoute) gateway netProto
                                  multicastLoop (MTU chosenRoute) of
                             Some r \<Rightarrow> Return (Inr r)
                           | None \<Rightarrow> fallback)))
             else fallback)"

text \<open>The classification of the remote address at the head of \<^verbatim>\<open>FindRoute\<close>.\<close>

definition isLinkLocal :: "Deps \<Rightarrow> Address \<Rightarrow> bool" where
  "isLinkLocal d remoteAddr \<longleftrightarrow>
     IsV6LinkLocalUnicastAddress d remoteAddr \<or> IsV6LinkLocalMulticastAddress d remoteAddr"

definition isLocalBroadcast :: "Deps \<Rightarrow> Address \<Rightarrow> bool" where
  "isLocalBroadcast d remoteAddr \<longleftrightarrow> remoteAddr = IPv4Broadcast d"

definition isMulticast :: "Deps \<Rightarrow> Address \<Rightarrow> bool" where
  "isMulticast d remoteAddr \<longleftrightarrow>
     IsV4MulticastAddress d remoteAddr \<or> IsV6MulticastAddress d remoteAddr"

definition isLoopback :: "Deps \<Rightarrow> Address \<Rightarrow> bool" where
  "isLoopback d remoteAddr \<longleftrightarrow>
     IsV4LoopbackAddress d remoteAddr \<or> IsV6LoopbackAddress d remoteAddr"

definition needRoute :: "Deps \<Rightarrow> Address \<Rightarrow> bool" where
  "needRoute d remoteAddr \<longleftrightarrow>
     \<not> (isLocalBroadcast d remoteAddr \<or> isMulticast d remoteAddr \<or> isLinkLocal d remoteAddr
        \<or> isLoopback d remoteAddr)"

definition FindRoute ::
  "Deps \<Rightarrow> Stack \<Rightarrow> NICID \<Rightarrow> Address \<Rightarrow> Address \<Rightarrow> NetworkProtocolNumber \<Rightarrow> bool
     \<Rightarrow> (Error + StackRoute) outcome" where
  "FindRoute d s nid localAddr remoteAddr netProto multicastLoop =
     (if \<not> CheckNetworkProtocol s netProto then Return (Inl ErrUnknownProtocol)
      else
        (case (if handleLocal s \<and> \<not> isMulticast d remoteAddr \<and> \<not> isLocalBroadcast d remoteAddr
               then findLocalRouteRLocked d s nid localAddr remoteAddr netProto
               else None) of
           Some r \<Rightarrow> Return (Inr r)
         | None \<Rightarrow>
             if nid \<noteq> 0 \<and> \<not> needRoute d remoteAddr then
               (case (case map_of (nics s) nid of
                        None \<Rightarrow> None
                      | Some n \<Rightarrow>
                          if Enabled n then
                            (case getAddressEP n localAddr remoteAddr [] netProto of
                               None \<Rightarrow> None
                             | Some addressEndpoint \<Rightarrow>
                                 Some (makeRoute netProto [] localAddr remoteAddr n n
                                         addressEndpoint (handleLocal s) multicastLoop 0))
                          else None) of
                  Some r \<Rightarrow> Return (Inr r)
                | None \<Rightarrow>
                    if isLoopback d remoteAddr then Return (Inl ErrBadLocalAddress)
                    else Return (Inl ErrNetworkUnreachable))
             else findRouteInTable d s nid localAddr remoteAddr netProto multicastLoop
                    (needRoute d remoteAddr) (isLinkLocal d remoteAddr)))"

subsection \<open>Concrete stacks for the examples\<close>

text \<open>
  A route with prefix length \<open>p\<close> through NIC \<open>n\<close>; a link endpoint that coordinates
  nothing; an enabled NIC without addresses; a fresh stack without protocols, NICs or
  routes.
\<close>

definition exRoute :: "int \<Rightarrow> NICID \<Rightarrow> Route" where
  "exRoute p n = \<lparr>Destination = \<lparr>ID = [], Prefix = p\<rparr>, Gateway = [], NIC = n,
                  SourceHint = [], MTU = 0\<rparr>"

definition exLink :: LinkEndpoint where
  "exLink = \<lparr>linkID = 0, CoordinatorNIC = None\<rparr>"

definition exNIC :: "NICID \<Rightarrow> nic" where
  "exNIC i = \<lparr>nic_id = i, name = ''eth0'', Enabled = True, Primary = None,
              NetworkLinkEndpoint = exLink,
              primaryEndpoint = (\<lambda>_ _ _. None), findEndpoint = (\<lambda>_ _. None),
              getAddressOrCreateTempInner = (\<lambda>_ _. None), hasAddress = (\<lambda>_ _. False),
              nic_CheckLocalAddress = (\<lambda>_ _. False), forwarding = (\<lambda>_. Inr False),
              remove = (\<lambda>_. (True, None))\<rparr>"

definition exStack :: Stack where
  "exStack = \<lparr>transportProtocols = Map.empty, networkProtocols = Map.empty, rawFactory = None,
              routeTable = [], nics = [], defaultForwardingEnabled = [], nicIDGen = 0,
              handleLocal = False, calls = []\<rparr>"

definition exNicDeps :: NicDeps where
  "exNicDeps = \<lparr>newNIC = (\<lambda>i ep opts. (exNIC i)\<lparr>name := Name opts, NetworkLinkEndpoint := ep\<rparr>),
                setForwarding = (\<lambda>n _ _. (Inr False, n)),
                enable = (\<lambda>n. (None, n\<lparr>Enabled := True\<rparr>))\<rparr>"

text \<open>A coordinator whose \<^verbatim>\<open>DelNIC\<close> fails, and a stack whose NIC 7 is attached to it.\<close>

definition exFailingCoordinator :: LinkEndpoint where
  "exFailingCoordinator = \<lparr>linkID = 1, CoordinatorNIC = Some (\<lambda>_. Some (ErrOther 0))\<rparr>"

definition exCoordinatedStack :: Stack where
  "exCoordinatedStack =
     exStack\<lparr>nics := [(7, (exNIC 7)\<lparr>Primary := Some exFailingCoordinator\<rparr>)],
             routeTable := [exRoute 8 7]\<rparr>"

text \<open>
  The address classes of IPv4 and IPv6 as an instance of the parameters: fe80::/10,
  ff02::/16 scope, 255.255.255.255, 224.0.0.0/4, ff00::/8, 127.0.0.0/8 and ::1.
\<close>

definition exDeps :: Deps where
  "exDeps = \<lparr>IsV6LinkLocalUnicastAddress =
               (\<lambda>a. length a = 16 \<and> a ! 0 = 0xfe \<and> (a ! 1) AND 0xc0 = 0x80),
             IsV6LinkLocalMulticastAddress =
               (\<lambda>a. length a = 16 \<and> a ! 0 = 0xff \<and> (a ! 1) AND 0x0f = 2),
             IPv4Broadcast = [255, 255, 255, 255],
             IsV4MulticastAddress = (\<lambda>a. length a = 4 \<and> (a ! 0) AND 0xf0 = 0xe0),
             IsV6MulticastAddress = (\<lambda>a. length a = 16 \<and> a ! 0 = 0xff),
             IsV4LoopbackAddress = (\<lambda>a. length a = 4 \<and> a ! 0 = 0x7f),
             IsV6LoopbackAddress = (\<lambda>a. a = [0, 0, 0, 0, 0, 0, 0, 0, 0, 0, 0, 0, 0, 0, 0, 1]),
             Contains = (\<lambda>_ _. True),
             validates = (\<lambda>_. True),
             IsOutboundBroadcast = (\<lambda>_. False)\<rparr>"

text \<open>The address fe80::x, and an enabled NIC that owns exactly the address \<open>a\<close>.\<close>

definition exLinkLocal :: "8 word \<Rightarrow> Address" where
  "exLinkLocal x = [0xfe, 0x80, 0, 0, 0, 0, 0, 0, 0, 0, 0, 0, 0, 0, 0, x]"

definition exOwner :: "NICID \<Rightarrow> Address \<Rightarrow> nic" where
  "exOwner i a = (exNIC i)\<lparr>primaryEndpoint := (\<lambda>_ _ _. Some 5),
                            findEndpoint := (\<lambda>_ l. if l = a then Some 5 else None),
                            getAddressOrCreateTempInner := (\<lambda>_ l. if l = a then Some 5 else None),
                            hasAddress := (\<lambda>_ l. l = a)\<rparr>"

text \<open>
  A stack that handles local traffic, with IPv6 registered: NIC 1 owns fe80::1 and
  NIC 2 owns fe80::2.
\<close>

definition exLocalStack :: Stack where
  "exLocalStack = exStack\<lparr>networkProtocols := [0x86dd \<mapsto> 0],
                           nics := [(1, exOwner 1 (exLinkLocal 1)), (2, exOwner 2 (exLinkLocal 2))],
                           handleLocal := True\<rparr>"

section \<open>Properties\<close>

subsection \<open>The loops as list functions\<close>

lemma getRouteTableLoop_append: "getRouteTableLoop rs table = table @ rs"
  by (induction rs arbitrary: table) auto

lemma GetRouteTable_routeTable: "GetRouteTable s = routeTable s"
  by (simp add: GetRouteTable_def getRouteTableLoop_append)

lemma removeRoutesLoop_filter:
  "removeRoutesLoop match kept rs count =
     (kept @ filter (\<lambda>r. \<not> match r) rs, count + int (length (filter match rs)))"
  by (induction rs arbitrary: kept count) auto

lemma removeNICRoutesLoop_filter:
  "removeNICRoutesLoop nid kept rs = kept @ filter (\<lambda>r. NIC r \<noteq> nid) rs"
  by (induction rs arbitrary: kept) auto

lemma addRouteLoop_split:
  "addRouteLoop r T =
     takeWhile (\<lambda>n. Prefix (Destination r) \<le> Prefix (Destination n)) T @
     r # dropWhile (\<lambda>n. Prefix (Destination r) \<le> Prefix (Destination n)) T"
  by (induction T) auto

lemma set_addRouteLoop: "set (addRouteLoop r T) = insert r (set T)"
  by (induction T) auto

lemma filter_addRouteLoop:
  "filter (\<lambda>x. x \<noteq> r) (addRouteLoop r T) = filter (\<lambda>x. x \<noteq> r) T"
  by (induction T) auto

lemma map_of_filter_key: "map_of (filter (\<lambda>(k, _). k \<noteq> nid) xs) nid = None"
  by (induction xs) auto

subsection \<open>The order of the route table\<close>

lemma prefixSorted_addRouteLoop:
  "prefixSorted T \<Longrightarrow> prefixSorted (addRouteLoop r T)"
  by (induction T) (auto simp: prefixSorted_def set_addRouteLoop)

lemma prefixSorted_dropWhile_less:
  "prefixSorted T \<Longrightarrow>
   \<forall>e \<in> set (dropWhile (\<lambda>n. Prefix (Destination r) \<le> Prefix (Destination n)) T).
     Prefix (Destination e) < Prefix (Destination r)"
  by (induction T) (auto simp: prefixSorted_def)

lemma prefixSorted_filter: "prefixSorted T \<Longrightarrow> prefixSorted (filter P T)"
  by (simp add: prefixSorted_def sorted_wrt_filter)

lemma routeTable_setRouteTableLoop_sorted:
  "prefixSorted (routeTable s) \<Longrightarrow> prefixSorted (routeTable (setRouteTableLoop t s))"
  by (induction t arbitrary: s) (auto simp: addRouteLocked_def prefixSorted_addRouteLoop)

lemma prefixSorted_SetRouteTable: "prefixSorted (routeTable (SetRouteTable t s))"
  unfolding SetRouteTable_def
  by (rule routeTable_setRouteTableLoop_sorted) (simp add: prefixSorted_def)

lemma prefixSorted_AddRoute:
  "prefixSorted (routeTable s) \<Longrightarrow> prefixSorted (routeTable (AddRoute r s))"
  by (simp add: AddRoute_def addRouteLocked_def prefixSorted_addRouteLoop)

lemma prefixSorted_RemoveRoutes:
  "prefixSorted (routeTable s) \<Longrightarrow> prefixSorted (routeTable (snd (RemoveRoutes match s)))"
  by (simp add: RemoveRoutes_def removeRoutesLocked_def removeRoutesLoop_filter prefixSorted_filter)

lemma prefixSorted_ReplaceRoute:
  "prefixSorted (routeTable s) \<Longrightarrow> prefixSorted (routeTable (ReplaceRoute r s))"
  by (simp add: ReplaceRoute_def addRouteLocked_def removeRoutesLocked_def
      removeRoutesLoop_filter prefixSorted_filter prefixSorted_addRouteLoop)

lemma prefixSorted_runRouteCalls:
  "prefixSorted (routeTable s) \<Longrightarrow> prefixSorted (routeTable (runRouteCalls cs s))"
proof (induction cs s rule: runRouteCalls.induct)
  case (1 s)
  then show ?case by simp
next
  case (2 r cs s)
  then show ?case by (simp add: prefixSorted_AddRoute)
next
  case (3 t cs s)
  then show ?case by (simp add: prefixSorted_SetRouteTable)
qed

lemma prefixSorted_runRouteCalls_reset:
  "\<exists>t. Call_SetRouteTable t \<in> set cs \<Longrightarrow> prefixSorted (routeTable (runRouteCalls cs s))"
proof (induction cs s rule: runRouteCalls.induct)
  case (1 s)
  then show ?case by simp
next
  case (2 r cs s)
  then show ?case by simp
next
  case (3 t cs s)
  show ?case
    by (simp add: prefixSorted_runRouteCalls prefixSorted_SetRouteTable)
qed

text \<open>
  Every sorted table is one the stack can hold: \<^verbatim>\<open>SetRouteTable\<close> of a sorted table
  installs that very table. A new stack starts with the empty table, and every method
  that writes the table keeps it sorted (the lemmas above), so the tables a stack can
  hold are exactly the sorted ones.
\<close>

lemma addRouteLoop_sorted_append:
  "\<forall>e \<in> set T. Prefix (Destination r) \<le> Prefix (Destination e) \<Longrightarrow> addRouteLoop r T = T @ [r]"
  by (induction T) auto

lemma setRouteTableLoop_sorted_id:
  "prefixSorted (routeTable s @ t) \<Longrightarrow> routeTable (setRouteTableLoop t s) = routeTable s @ t"
proof (induction t arbitrary: s)
  case Nil
  then show ?case by simp
next
  case (Cons r t)
  have "\<forall>e \<in> set (routeTable s). Prefix (Destination r) \<le> Prefix (Destination e)"
    using Cons.prems by (auto simp: prefixSorted_def sorted_wrt_append)
  then have "routeTable (addRouteLocked r s) = routeTable s @ [r]"
    by (simp add: addRouteLocked_def addRouteLoop_sorted_append)
  with Cons show ?case by simp
qed

lemma SetRouteTable_sorted_id:
  "prefixSorted t \<Longrightarrow> GetRouteTable (SetRouteTable t s) = t"
  by (simp add: GetRouteTable_routeTable SetRouteTable_def setRouteTableLoop_sorted_id)

subsection \<open>Routes\<close>

text \<open>
  C1. \<^verbatim>\<open>FindRoute\<close> returns \<^verbatim>\<open>UnknownProtocol\<close> whenever the network protocol is not
  registered. When it is registered, the NIC id is not 0, the remote address is
  link-local, local broadcast, multicast or loopback, and the lookup of a local route
  (made when the stack handles local traffic and the remote address is neither multicast
  nor local broadcast) finds none: if the NIC with that id is present, enabled and
  yields an address endpoint, the result is the route that \<^verbatim>\<open>makeRoute\<close> builds with that
  NIC as outgoing NIC, the empty gateway and MTU 0; otherwise it is \<^verbatim>\<open>BadLocalAddress\<close>
  for a loopback remote address and \<^verbatim>\<open>NetworkUnreachable\<close> in all other cases.
\<close>

theorem FindRoute_direct_route:
  "(\<not> CheckNetworkProtocol s netProto \<longrightarrow>
      FindRoute d s nid localAddr remoteAddr netProto multicastLoop = Return (Inl ErrUnknownProtocol)) \<and>
   (CheckNetworkProtocol s netProto \<and> nid \<noteq> 0 \<and>
    (isLinkLocal d remoteAddr \<or> isLocalBroadcast d remoteAddr \<or> isMulticast d remoteAddr
       \<or> isLoopback d remoteAddr) \<and>
    (handleLocal s \<and> \<not> isMulticast d remoteAddr \<and> \<not> isLocalBroadcast d remoteAddr \<longrightarrow>
       findLocalRouteRLocked d s nid localAddr remoteAddr netProto = None) \<longrightarrow>
      FindRoute d s nid localAddr remoteAddr netProto multicastLoop =
        (case map_of (nics s) nid of
           Some n \<Rightarrow>
             (case (if Enabled n then getAddressEP n localAddr remoteAddr [] netProto else None) of
                Some addressEndpoint \<Rightarrow>
                  Return (Inr (makeRoute netProto [] localAddr remoteAddr n n addressEndpoint
                                 (handleLocal s) multicastLoop 0))
              | None \<Rightarrow>
                  Return (Inl (if isLoopback d remoteAddr then ErrBadLocalAddress
                               else ErrNetworkUnreachable)))
         | None \<Rightarrow>
             Return (Inl (if isLoopback d remoteAddr then ErrBadLocalAddress
                          else ErrNetworkUnreachable))))"
proof (intro conjI impI)
  assume "\<not> CheckNetworkProtocol s netProto"
  then show "FindRoute d s nid localAddr remoteAddr netProto multicastLoop
               = Return (Inl ErrUnknownProtocol)"
    by (simp add: FindRoute_def)
next
  assume a: "CheckNetworkProtocol s netProto \<and> nid \<noteq> 0 \<and>
    (isLinkLocal d remoteAddr \<or> isLocalBroadcast d remoteAddr \<or> isMulticast d remoteAddr
       \<or> isLoopback d remoteAddr) \<and>
    (handleLocal s \<and> \<not> isMulticast d remoteAddr \<and> \<not> isLocalBroadcast d remoteAddr \<longrightarrow>
       findLocalRouteRLocked d s nid localAddr remoteAddr netProto = None)"
  then have nr: "\<not> needRoute d remoteAddr"
    by (auto simp: needRoute_def)
  have loc: "(if handleLocal s \<and> \<not> isMulticast d remoteAddr \<and> \<not> isLocalBroadcast d remoteAddr
               then findLocalRouteRLocked d s nid localAddr remoteAddr netProto
               else None) = None"
    using a by simp
  show "FindRoute d s nid localAddr remoteAddr netProto multicastLoop =
        (case map_of (nics s) nid of
           Some n \<Rightarrow>
             (case (if Enabled n then getAddressEP n localAddr remoteAddr [] netProto else None) of
                Some addressEndpoint \<Rightarrow>
                  Return (Inr (makeRoute netProto [] localAddr remoteAddr n n addressEndpoint
                                 (handleLocal s) multicastLoop 0))
              | None \<Rightarrow>
                  Return (Inl (if isLoopback d remoteAddr then ErrBadLocalAddress
                               else ErrNetworkUnreachable)))
         | None \<Rightarrow>
             Return (Inl (if isLoopback d remoteAddr then ErrBadLocalAddress
                          else ErrNetworkUnreachable)))"
    unfolding FindRoute_def loc using a nr
    by (simp split: option.splits)
qed

text \<open>
  The scenario of a direct route: no protocol registered gives \<^verbatim>\<open>UnknownProtocol\<close>; with
  IPv4 registered and NIC 1 owning 10.0.0.1, the multicast address 224.0.0.1 is reached
  through NIC 1 with empty gateway and MTU 0, and asking for the absent NIC 2 gives
  \<^verbatim>\<open>NetworkUnreachable\<close>.
\<close>

theorem FindRoute_direct_route_witness:
  "\<not> CheckNetworkProtocol exStack 0x0800 \<and>
   FindRoute exDeps exStack 1 [10, 0, 0, 1] [224, 0, 0, 1] 0x0800 False
     = Return (Inl ErrUnknownProtocol) \<and>
   CheckNetworkProtocol
     (exStack\<lparr>networkProtocols := [0x0800 \<mapsto> 0], nics := [(1, exOwner 1 [10, 0, 0, 1])]\<rparr>) 0x0800 \<and>
   isMulticast exDeps [224, 0, 0, 1] \<and>
   FindRoute exDeps
       (exStack\<lparr>networkProtocols := [0x0800 \<mapsto> 0], nics := [(1, exOwner 1 [10, 0, 0, 1])]\<rparr>)
       1 [10, 0, 0, 1] [224, 0, 0, 1] 0x0800 False =
     Return (Inr (makeRoute 0x0800 [] [10, 0, 0, 1] [224, 0, 0, 1] (exOwner 1 [10, 0, 0, 1])
                    (exOwner 1 [10, 0, 0, 1]) 5 False False 0)) \<and>
   FindRoute exDeps
       (exStack\<lparr>networkProtocols := [0x0800 \<mapsto> 0], nics := [(1, exOwner 1 [10, 0, 0, 1])]\<rparr>)
       2 [10, 0, 0, 1] [224, 0, 0, 1] 0x0800 False = Return (Inl ErrNetworkUnreachable)"
proof -
  let ?s = "exStack\<lparr>networkProtocols := [0x0800 \<mapsto> 0], nics := [(1, exOwner 1 [10, 0, 0, 1])]\<rparr>"
  let ?la = "[10, 0, 0, 1] :: Address" and ?ra = "[224, 0, 0, 1] :: Address"
  have unreg: "\<not> CheckNetworkProtocol exStack 0x0800"
    by (simp add: CheckNetworkProtocol_def exStack_def)
  have reg: "CheckNetworkProtocol ?s 0x0800"
    by (simp add: CheckNetworkProtocol_def)
  have mc: "isMulticast exDeps ?ra"
    by (simp add: isMulticast_def exDeps_def)
  have lb: "\<not> isLoopback exDeps ?ra"
    by (simp add: isLoopback_def exDeps_def)
  have ep: "getAddressEP (exOwner 1 ?la) ?la ?ra [] 0x0800 = Some 5"
    by (simp add: getAddressEP_def exOwner_def BitLen_def)
  have en: "Enabled (exOwner 1 ?la)"
    by (simp add: exOwner_def exNIC_def)
  have hl: "\<not> handleLocal ?s"
    by (simp add: exStack_def)
  have a: "FindRoute exDeps exStack 1 ?la ?ra 0x0800 False = Return (Inl ErrUnknownProtocol)"
    using FindRoute_direct_route [of exStack "0x0800" exDeps 1 ?la ?ra False] unreg by blast
  have b: "FindRoute exDeps ?s 1 ?la ?ra 0x0800 False =
     Return (Inr (makeRoute 0x0800 [] ?la ?ra (exOwner 1 ?la) (exOwner 1 ?la) 5 False False 0))"
    using FindRoute_direct_route [of ?s "0x0800" exDeps 1 ?la ?ra False] reg mc ep en hl by simp
  have c: "FindRoute exDeps ?s 2 ?la ?ra 0x0800 False = Return (Inl ErrNetworkUnreachable)"
    using FindRoute_direct_route [of ?s "0x0800" exDeps 2 ?la ?ra False] reg mc lb hl by simp
  show ?thesis using unreg reg mc a b c by blast
qed

text \<open>
  Without the condition on the local route the statement fails. The stack handles
  local traffic; NIC 1 is present, enabled and yields an address endpoint for fe80::1;
  the remote address fe80::2 is link-local and owned by NIC 2. \<^verbatim>\<open>FindRoute\<close> through
  NIC 1 returns the local route of \<^verbatim>\<open>makeLocalRoute\<close>, whose outgoing NIC is NIC 2.
\<close>

theorem FindRoute_local_route_counterexample:
  "CheckNetworkProtocol exLocalStack 0x86dd \<and> (1::NICID) \<noteq> 0 \<and>
   isLinkLocal exDeps (exLinkLocal 2) \<and>
   map_of (nics exLocalStack) 1 = Some (exOwner 1 (exLinkLocal 1)) \<and>
   Enabled (exOwner 1 (exLinkLocal 1)) \<and>
   getAddressEP (exOwner 1 (exLinkLocal 1)) (exLinkLocal 1) (exLinkLocal 2) [] 0x86dd = Some 5 \<and>
   FindRoute exDeps exLocalStack 1 (exLinkLocal 1) (exLinkLocal 2) 0x86dd False =
     Return (Inr (makeLocalRoute 0x86dd (exLinkLocal 1) (exLinkLocal 2)
                    (exOwner 2 (exLinkLocal 2)) (exOwner 1 (exLinkLocal 1)) 5)) \<and>
   exOwner 2 (exLinkLocal 2) \<noteq> exOwner 1 (exLinkLocal 1)"
proof -
  have reg: "CheckNetworkProtocol exLocalStack 0x86dd"
    by (simp add: CheckNetworkProtocol_def exLocalStack_def)
  have ll: "isLinkLocal exDeps (exLinkLocal 2)"
    by (simp add: isLinkLocal_def exDeps_def exLinkLocal_def)
  have nm: "\<not> isMulticast exDeps (exLinkLocal 2)" "\<not> isLocalBroadcast exDeps (exLinkLocal 2)"
    by (simp_all add: isMulticast_def isLocalBroadcast_def exDeps_def exLinkLocal_def)
  have hl: "handleLocal exLocalStack"
    by (simp add: exLocalStack_def)
  have present: "map_of (nics exLocalStack) 1 = Some (exOwner 1 (exLinkLocal 1))"
    by (simp add: exLocalStack_def)
  have en: "Enabled (exOwner 1 (exLinkLocal 1))"
    by (simp add: exOwner_def exNIC_def)
  have ep: "getAddressEP (exOwner 1 (exLinkLocal 1)) (exLinkLocal 1) (exLinkLocal 2) [] 0x86dd
              = Some 5"
    by (simp add: getAddressEP_def exOwner_def BitLen_def exLinkLocal_def)
  have loc: "findLocalRouteRLocked exDeps exLocalStack 1 (exLinkLocal 1) (exLinkLocal 2) 0x86dd =
      Some (makeLocalRoute 0x86dd (exLinkLocal 1) (exLinkLocal 2)
              (exOwner 2 (exLinkLocal 2)) (exOwner 1 (exLinkLocal 1)) 5)"
    by (simp add: findLocalRouteRLocked_def findLocalRouteFromNICRLocked_def Let_def present
        BitLen_def)
       (simp add: exOwner_def exLinkLocal_def exLocalStack_def exDeps_def)
  have res: "FindRoute exDeps exLocalStack 1 (exLinkLocal 1) (exLinkLocal 2) 0x86dd False =
     Return (Inr (makeLocalRoute 0x86dd (exLinkLocal 1) (exLinkLocal 2)
                    (exOwner 2 (exLinkLocal 2)) (exOwner 1 (exLinkLocal 1)) 5))"
    by (simp add: FindRoute_def reg nm hl loc)
  have ne: "exOwner 2 (exLinkLocal 2) \<noteq> exOwner 1 (exLinkLocal 1)"
    by (simp add: exOwner_def exNIC_def)
  show ?thesis using reg ll present en ep res ne by simp
qed

subsection \<open>Removing a NIC\<close>

lemma removeNICLocked_detached:
  assumes "map_of (nics s) nid = Some n"
    and "Primary n = None \<or>
         (\<exists>ep DelNIC. Primary n = Some ep \<and> CoordinatorNIC ep = Some DelNIC
            \<and> DelNIC (nic_id n) = None)"
  shows "\<exists>cs. removeNICLocked s nid =
           Return (remove n True,
                   s\<lparr>nics := filter (\<lambda>(k, _). k \<noteq> nid) (nics s),
                     routeTable := filter (\<lambda>r. NIC r \<noteq> nid) (routeTable s),
                     calls := cs\<rparr>)"
  using assms
  by (auto simp: removeNICLocked_def Let_def removeNICRoutesLoop_filter)

lemma RemoveNIC_detached:
  assumes "map_of (nics s) nid = Some n"
    and "Primary n = None \<or>
         (\<exists>ep DelNIC. Primary n = Some ep \<and> CoordinatorNIC ep = Some DelNIC
            \<and> DelNIC (nic_id n) = None)"
  shows "\<exists>cs. RemoveNIC s nid =
           Return (snd (remove n True),
                   s\<lparr>nics := filter (\<lambda>(k, _). k \<noteq> nid) (nics s),
                     routeTable := filter (\<lambda>r. NIC r \<noteq> nid) (routeTable s),
                     calls := cs\<rparr>)"
proof -
  obtain cs where r: "removeNICLocked s nid =
           Return (remove n True,
                   s\<lparr>nics := filter (\<lambda>(k, _). k \<noteq> nid) (nics s),
                     routeTable := filter (\<lambda>r. NIC r \<noteq> nid) (routeTable s),
                     calls := cs\<rparr>)"
    using removeNICLocked_detached [OF assms] by blast
  show ?thesis
    by (cases "remove n True") (auto simp: RemoveNIC_def r)
qed

lemma RemoveNIC_absent:
  "map_of (nics s) nid = None \<Longrightarrow> RemoveNIC s nid = Return (Some ErrUnknownNICID, s)"
  by (simp add: RemoveNIC_def removeNICLocked_def)

text \<open>
  C2. If the NIC is present and either has no coordinator or its coordinator's
  \<^verbatim>\<open>DelNIC\<close> succeeds, \<^verbatim>\<open>RemoveNIC\<close> deletes it and purges every route whose NIC field is
  that id: afterwards \<^verbatim>\<open>HasNIC\<close> is false, the route table is the old one without those
  routes, and no route of \<^verbatim>\<open>GetRouteTable\<close> names the id. If the NIC is absent,
  \<^verbatim>\<open>RemoveNIC\<close> returns \<^verbatim>\<open>UnknownNICID\<close> and leaves the stack as it was.
\<close>

theorem RemoveNIC_purges_routes:
  "(map_of (nics s) nid = Some n \<and>
        (Primary n = None \<or>
         (\<exists>ep DelNIC. Primary n = Some ep \<and> CoordinatorNIC ep = Some DelNIC
            \<and> DelNIC (nic_id n) = None))
      \<longrightarrow> (\<exists>err s'. RemoveNIC s nid = Return (err, s') \<and> \<not> HasNIC s' nid \<and>
             GetRouteTable s' = filter (\<lambda>r. NIC r \<noteq> nid) (GetRouteTable s) \<and>
             (\<forall>r \<in> set (GetRouteTable s'). NIC r \<noteq> nid))) \<and>
   (\<not> HasNIC s nid \<longrightarrow> RemoveNIC s nid = Return (Some ErrUnknownNICID, s))"
proof (intro conjI impI)
  assume a: "map_of (nics s) nid = Some n \<and>
        (Primary n = None \<or>
         (\<exists>ep DelNIC. Primary n = Some ep \<and> CoordinatorNIC ep = Some DelNIC
            \<and> DelNIC (nic_id n) = None))"
  then obtain cs where r: "RemoveNIC s nid =
           Return (snd (remove n True),
                   s\<lparr>nics := filter (\<lambda>(k, _). k \<noteq> nid) (nics s),
                     routeTable := filter (\<lambda>r. NIC r \<noteq> nid) (routeTable s),
                     calls := cs\<rparr>)"
    using RemoveNIC_detached [of s nid n] by blast
  show "\<exists>err s'. RemoveNIC s nid = Return (err, s') \<and> \<not> HasNIC s' nid \<and>
             GetRouteTable s' = filter (\<lambda>r. NIC r \<noteq> nid) (GetRouteTable s) \<and>
             (\<forall>r \<in> set (GetRouteTable s'). NIC r \<noteq> nid)"
    unfolding r
    by (simp add: HasNIC_def map_of_filter_key GetRouteTable_routeTable)
next
  assume "\<not> HasNIC s nid"
  then have "map_of (nics s) nid = None"
    by (simp add: HasNIC_def split: option.splits)
  then show "RemoveNIC s nid = Return (Some ErrUnknownNICID, s)"
    by (rule RemoveNIC_absent)
qed

text \<open>
  The scenario of the route purge: NIC 7 with a route through it and one through NIC 9;
  after \<^verbatim>\<open>RemoveNIC(7)\<close> only the route through NIC 9 is left. On the fresh stack
  \<^verbatim>\<open>RemoveNIC(7)\<close> is \<^verbatim>\<open>UnknownNICID\<close>.
\<close>

theorem RemoveNIC_purges_routes_witness:
  "map_of (nics (exStack\<lparr>nics := [(7, exNIC 7)], routeTable := [exRoute 8 7, exRoute 24 9]\<rparr>)) 7
     = Some (exNIC 7) \<and>
   Primary (exNIC 7) = None \<and>
   (\<exists>err s'. RemoveNIC (exStack\<lparr>nics := [(7, exNIC 7)],
                                 routeTable := [exRoute 8 7, exRoute 24 9]\<rparr>) 7 = Return (err, s') \<and>
      \<not> HasNIC s' 7 \<and> GetRouteTable s' = [exRoute 24 9]) \<and>
   \<not> HasNIC exStack 7 \<and> RemoveNIC exStack 7 = Return (Some ErrUnknownNICID, exStack)"
proof -
  let ?s = "exStack\<lparr>nics := [(7, exNIC 7)], routeTable := [exRoute 8 7, exRoute 24 9]\<rparr>"
  have p: "map_of (nics ?s) 7 = Some (exNIC 7)" "Primary (exNIC 7) = None"
    by (simp_all add: exNIC_def)
  have t: "filter (\<lambda>r. NIC r \<noteq> 7) (GetRouteTable ?s) = [exRoute 24 9]"
    by (simp add: GetRouteTable_def exRoute_def)
  have "\<exists>err s'. RemoveNIC ?s 7 = Return (err, s') \<and> \<not> HasNIC s' 7 \<and>
          GetRouteTable s' = [exRoute 24 9]"
    using RemoveNIC_purges_routes [of ?s 7 "exNIC 7"] p unfolding t by blast
  moreover have a: "\<not> HasNIC exStack 7"
    by (simp add: HasNIC_def exStack_def)
  moreover have "RemoveNIC exStack 7 = Return (Some ErrUnknownNICID, exStack)"
    using RemoveNIC_purges_routes [of exStack 7 "exNIC 7"] a by blast
  ultimately show ?thesis using p by blast
qed

text \<open>
  Without the condition on the coordinator the statement fails: NIC 7 is present, its
  coordinator's \<^verbatim>\<open>DelNIC\<close> returns an error, and \<^verbatim>\<open>RemoveNIC(7)\<close> returns that error with
  the route through NIC 7 still in the table.
\<close>

theorem RemoveNIC_coordinator_error_counterexample:
  "HasNIC exCoordinatedStack 7 \<and>
   (case RemoveNIC exCoordinatedStack 7 of
      Panic \<Rightarrow> False
    | Return (err, s') \<Rightarrow>
        err = Some (ErrOther 0) \<and> GetRouteTable s' = [exRoute 8 7] \<and> NIC (exRoute 8 7) = 7)"
  by (simp add: exCoordinatedStack_def HasNIC_def RemoveNIC_def removeNICLocked_def exStack_def
      exNIC_def exFailingCoordinator_def GetRouteTable_def exRoute_def)

subsection \<open>The route table\<close>

text \<open>
  C3. Starting from any route table the stack can hold (a sorted one, see
  \<open>SetRouteTable_sorted_id\<close> and the lemmas before it), and from any table at all once
  the sequence contains a \<^verbatim>\<open>SetRouteTable\<close>, every sequence of \<^verbatim>\<open>AddRoute\<close> and
  \<^verbatim>\<open>SetRouteTable\<close> calls leaves \<^verbatim>\<open>GetRouteTable\<close> sorted by non-increasing prefix length.
\<close>

theorem route_table_stays_sorted:
  "prefixSorted (routeTable s) \<or> (\<exists>t. Call_SetRouteTable t \<in> set cs) \<Longrightarrow>
     prefixSorted (GetRouteTable (runRouteCalls cs s))"
  using prefixSorted_runRouteCalls [of s cs] prefixSorted_runRouteCalls_reset [of cs s]
  by (auto simp: GetRouteTable_routeTable)

text \<open>
  The scenario of longest-prefix ordering: /0, /8 and /16 added in this order to the
  empty table give /16, /8, /0.
\<close>

theorem route_table_stays_sorted_witness:
  "prefixSorted (routeTable exStack) \<and>
   GetRouteTable (runRouteCalls
       [Call_AddRoute (exRoute 0 1), Call_AddRoute (exRoute 8 2), Call_AddRoute (exRoute 16 3)]
       exStack)
     = [exRoute 16 3, exRoute 8 2, exRoute 0 1] \<and>
   prefixSorted (GetRouteTable (runRouteCalls
       [Call_AddRoute (exRoute 0 1), Call_AddRoute (exRoute 8 2), Call_AddRoute (exRoute 16 3)]
       exStack))"
proof -
  have s: "prefixSorted (routeTable exStack)"
    by (simp add: exStack_def prefixSorted_def)
  have v: "GetRouteTable (runRouteCalls
       [Call_AddRoute (exRoute 0 1), Call_AddRoute (exRoute 8 2), Call_AddRoute (exRoute 16 3)]
       exStack)
     = [exRoute 16 3, exRoute 8 2, exRoute 0 1]"
    by (simp add: AddRoute_def addRouteLocked_def GetRouteTable_def exStack_def exRoute_def)
  show ?thesis
    using s v route_table_stays_sorted [of exStack "[Call_AddRoute (exRoute 0 1),
      Call_AddRoute (exRoute 8 2), Call_AddRoute (exRoute 16 3)]"] by blast
qed

text \<open>
  C4. \<^verbatim>\<open>AddRoute(r)\<close> puts \<open>r\<close> between two parts of the old table, which keep their
  order: every entry before \<open>r\<close> has a prefix length larger than or equal to that of
  \<open>r\<close>, and, the table being sorted, every entry after \<open>r\<close> has a strictly smaller one.
  So \<open>r\<close> comes after the existing entries of equal prefix length: insertion order is
  kept among them.
\<close>

theorem AddRoute_position:
  "\<exists>before after.
      GetRouteTable s = before @ after \<and>
      GetRouteTable (AddRoute r s) = before @ r # after \<and>
      (\<forall>e \<in> set before. Prefix (Destination r) \<le> Prefix (Destination e)) \<and>
      (prefixSorted (GetRouteTable s) \<longrightarrow>
         (\<forall>e \<in> set after. Prefix (Destination e) < Prefix (Destination r)))"
proof -
  let ?P = "\<lambda>n. Prefix (Destination r) \<le> Prefix (Destination n)"
  let ?T = "routeTable s"
  have "GetRouteTable s = takeWhile ?P ?T @ dropWhile ?P ?T"
    by (simp add: GetRouteTable_routeTable)
  moreover have "GetRouteTable (AddRoute r s) = takeWhile ?P ?T @ r # dropWhile ?P ?T"
    by (simp add: GetRouteTable_routeTable AddRoute_def addRouteLocked_def addRouteLoop_split)
  moreover have "\<forall>e \<in> set (takeWhile ?P ?T). ?P e"
    by (auto dest: set_takeWhileD)
  moreover have "prefixSorted (GetRouteTable s) \<longrightarrow>
      (\<forall>e \<in> set (dropWhile ?P ?T). Prefix (Destination e) < Prefix (Destination r))"
    using prefixSorted_dropWhile_less [of ?T r] by (simp add: GetRouteTable_routeTable)
  ultimately show ?thesis by blast
qed

text \<open>A /16 added to the table /24, /16, /8 goes after the old /16 and before the /8.\<close>

theorem AddRoute_position_witness:
  "prefixSorted (GetRouteTable (exStack\<lparr>routeTable := [exRoute 24 1, exRoute 16 2, exRoute 8 3]\<rparr>)) \<and>
   GetRouteTable (AddRoute (exRoute 16 4)
       (exStack\<lparr>routeTable := [exRoute 24 1, exRoute 16 2, exRoute 8 3]\<rparr>))
     = [exRoute 24 1, exRoute 16 2, exRoute 16 4, exRoute 8 3] \<and>
   (\<exists>before after.
      GetRouteTable (exStack\<lparr>routeTable := [exRoute 24 1, exRoute 16 2, exRoute 8 3]\<rparr>)
        = before @ after \<and>
      GetRouteTable (AddRoute (exRoute 16 4)
          (exStack\<lparr>routeTable := [exRoute 24 1, exRoute 16 2, exRoute 8 3]\<rparr>))
        = before @ exRoute 16 4 # after \<and>
      (\<forall>e \<in> set before. Prefix (Destination (exRoute 16 4)) \<le> Prefix (Destination e)) \<and>
      (\<forall>e \<in> set after. Prefix (Destination e) < Prefix (Destination (exRoute 16 4))))"
proof -
  let ?s = "exStack\<lparr>routeTable := [exRoute 24 1, exRoute 16 2, exRoute 8 3]\<rparr>"
  have s: "prefixSorted (GetRouteTable ?s)"
    by (simp add: GetRouteTable_def prefixSorted_def exRoute_def)
  have v: "GetRouteTable (AddRoute (exRoute 16 4) ?s)
     = [exRoute 24 1, exRoute 16 2, exRoute 16 4, exRoute 8 3]"
    by (simp add: AddRoute_def addRouteLocked_def GetRouteTable_def exRoute_def)
  show ?thesis using s v AddRoute_position [of ?s "exRoute 16 4"] by blast
qed

text \<open>
  The new route does not come before an existing entry of equal prefix length: a /8
  through NIC 2 added to the table that holds a /8 through NIC 1 ends up behind it.
\<close>

theorem AddRoute_equal_prefix_counterexample:
  "GetRouteTable (exStack\<lparr>routeTable := [exRoute 8 1]\<rparr>) = [exRoute 8 1] \<and>
   Prefix (Destination (exRoute 8 1)) \<le> Prefix (Destination (exRoute 8 2)) \<and>
   GetRouteTable (AddRoute (exRoute 8 2) (exStack\<lparr>routeTable := [exRoute 8 1]\<rparr>))
     = [exRoute 8 1, exRoute 8 2] \<and>
   exRoute 8 1 \<noteq> exRoute 8 2"
  by (simp add: AddRoute_def addRouteLocked_def GetRouteTable_def exRoute_def)

text \<open>
  C5. \<^verbatim>\<open>RemoveRoutes(match)\<close> returns the number of entries that match and leaves the
  table with exactly the entries that do not match, in their previous order.
\<close>

theorem RemoveRoutes_filter:
  "RemoveRoutes match s =
     (int (length (filter match (routeTable s))),
      s\<lparr>routeTable := filter (\<lambda>r. \<not> match r) (routeTable s)\<rparr>)"
  by (simp add: RemoveRoutes_def removeRoutesLocked_def removeRoutesLoop_filter)

text \<open>Removing the routes of NIC 1 from four routes removes two and keeps the others.\<close>

theorem RemoveRoutes_filter_witness:
  "RemoveRoutes (\<lambda>r. NIC r = 1)
     (exStack\<lparr>routeTable := [exRoute 24 1, exRoute 16 2, exRoute 8 1, exRoute 0 3]\<rparr>)
   = (2, exStack\<lparr>routeTable := [exRoute 16 2, exRoute 0 3]\<rparr>)"
  using RemoveRoutes_filter [of "\<lambda>r. NIC r = 1"
      "exStack\<lparr>routeTable := [exRoute 24 1, exRoute 16 2, exRoute 8 1, exRoute 0 3]\<rparr>"]
  by (simp add: exRoute_def)

text \<open>
  C6. \<^verbatim>\<open>AddRoute(r)\<close> followed by \<^verbatim>\<open>RemoveRoutes(x == r)\<close> gives back the table as it was
  before, exactly when that table held no entry equal to \<open>r\<close>.
\<close>

theorem AddRoute_RemoveRoutes_roundtrip:
  "GetRouteTable (snd (RemoveRoutes (\<lambda>x. x = r) (AddRoute r s))) = GetRouteTable s
     \<longleftrightarrow> r \<notin> set (routeTable s)"
proof -
  have res: "GetRouteTable (snd (RemoveRoutes (\<lambda>x. x = r) (AddRoute r s)))
        = filter (\<lambda>x. x \<noteq> r) (routeTable s)"
    by (simp add: GetRouteTable_routeTable RemoveRoutes_def removeRoutesLocked_def
        removeRoutesLoop_filter AddRoute_def addRouteLocked_def filter_addRouteLoop)
  show ?thesis
  proof
    assume "GetRouteTable (snd (RemoveRoutes (\<lambda>x. x = r) (AddRoute r s))) = GetRouteTable s"
    then have "filter (\<lambda>x. x \<noteq> r) (routeTable s) = routeTable s"
      using res by (simp add: GetRouteTable_routeTable)
    then show "r \<notin> set (routeTable s)"
      by (metis (mono_tags, lifting) filter_id_conv)
  next
    assume "r \<notin> set (routeTable s)"
    then have "filter (\<lambda>x. x \<noteq> r) (routeTable s) = routeTable s"
      by (auto simp: filter_id_conv)
    then show "GetRouteTable (snd (RemoveRoutes (\<lambda>x. x = r) (AddRoute r s))) = GetRouteTable s"
      using res by (simp add: GetRouteTable_routeTable)
  qed
qed

text \<open>A /16 that is new to the table /24, /8 is added and removed again.\<close>

theorem AddRoute_RemoveRoutes_roundtrip_witness:
  "exRoute 16 2 \<notin> set (routeTable (exStack\<lparr>routeTable := [exRoute 24 1, exRoute 8 3]\<rparr>)) \<and>
   GetRouteTable (AddRoute (exRoute 16 2) (exStack\<lparr>routeTable := [exRoute 24 1, exRoute 8 3]\<rparr>))
     = [exRoute 24 1, exRoute 16 2, exRoute 8 3] \<and>
   GetRouteTable (snd (RemoveRoutes (\<lambda>x. x = exRoute 16 2)
      (AddRoute (exRoute 16 2) (exStack\<lparr>routeTable := [exRoute 24 1, exRoute 8 3]\<rparr>))))
     = [exRoute 24 1, exRoute 8 3]"
proof -
  let ?s = "exStack\<lparr>routeTable := [exRoute 24 1, exRoute 8 3]\<rparr>"
  have n: "exRoute 16 2 \<notin> set (routeTable ?s)"
    by (simp add: exRoute_def)
  have v: "GetRouteTable (AddRoute (exRoute 16 2) ?s) = [exRoute 24 1, exRoute 16 2, exRoute 8 3]"
    by (simp add: AddRoute_def addRouteLocked_def GetRouteTable_def exRoute_def)
  have g: "GetRouteTable ?s = [exRoute 24 1, exRoute 8 3]"
    by (simp add: GetRouteTable_def)
  show ?thesis using n v g AddRoute_RemoveRoutes_roundtrip [of "exRoute 16 2" ?s] by simp
qed

text \<open>
  When the table already holds the route, adding it once more and removing the routes
  equal to it removes the old entry as well.
\<close>

theorem AddRoute_RemoveRoutes_duplicate_counterexample:
  "GetRouteTable (exStack\<lparr>routeTable := [exRoute 8 1]\<rparr>) = [exRoute 8 1] \<and>
   GetRouteTable (snd (RemoveRoutes (\<lambda>x. x = exRoute 8 1)
      (AddRoute (exRoute 8 1) (exStack\<lparr>routeTable := [exRoute 8 1]\<rparr>)))) = []"
  by (simp add: RemoveRoutes_def removeRoutesLocked_def AddRoute_def addRouteLocked_def
      GetRouteTable_def)

subsection \<open>Creating NICs and endpoints\<close>

text \<open>
  C7. \<^verbatim>\<open>CreateNICWithOptions\<close> fails with \<^verbatim>\<open>InvalidNICID\<close> when the id is 0, and, for an
  id that is not 0, with \<^verbatim>\<open>DuplicateNICID\<close> when the id is already in the NIC map or the
  name of the options is not empty and is the name of an existing NIC. In each of these
  cases the stack, and so its NIC map, is returned as it was.
\<close>

theorem CreateNICWithOptions_failures:
  "(nid = 0 \<longrightarrow> CreateNICWithOptions nd nid ep opts s = Return (Some ErrInvalidNICID, s)) \<and>
   (nid \<noteq> 0 \<and> (HasNIC s nid \<or>
                 (Name opts \<noteq> [] \<and> (\<exists>n \<in> snd ` set (nics s). name n = Name opts)))
      \<longrightarrow> CreateNICWithOptions nd nid ep opts s = Return (Some ErrDuplicateNICID, s))"
  by (auto simp: CreateNICWithOptions_def HasNIC_def list_ex_iff split: option.splits)

text \<open>
  With NIC 1 named eth0 in the stack: id 0 is invalid, id 1 is a duplicate, and id 2
  with the name eth0 is a duplicate.
\<close>

theorem CreateNICWithOptions_failures_witness:
  "CreateNICWithOptions exNicDeps 0 exLink \<lparr>Name = ''eth1'', Disabled = False\<rparr>
       (exStack\<lparr>nics := [(1, exNIC 1)]\<rparr>)
     = Return (Some ErrInvalidNICID, exStack\<lparr>nics := [(1, exNIC 1)]\<rparr>) \<and>
   CreateNICWithOptions exNicDeps 1 exLink \<lparr>Name = ''eth1'', Disabled = False\<rparr>
       (exStack\<lparr>nics := [(1, exNIC 1)]\<rparr>)
     = Return (Some ErrDuplicateNICID, exStack\<lparr>nics := [(1, exNIC 1)]\<rparr>) \<and>
   CreateNICWithOptions exNicDeps 2 exLink \<lparr>Name = ''eth0'', Disabled = False\<rparr>
       (exStack\<lparr>nics := [(1, exNIC 1)]\<rparr>)
     = Return (Some ErrDuplicateNICID, exStack\<lparr>nics := [(1, exNIC 1)]\<rparr>)"
  using CreateNICWithOptions_failures [of 0 exNicDeps exLink
          "\<lparr>Name = ''eth1'', Disabled = False\<rparr>" "exStack\<lparr>nics := [(1, exNIC 1)]\<rparr>"]
        CreateNICWithOptions_failures [of 1 exNicDeps exLink
          "\<lparr>Name = ''eth1'', Disabled = False\<rparr>" "exStack\<lparr>nics := [(1, exNIC 1)]\<rparr>"]
        CreateNICWithOptions_failures [of 2 exNicDeps exLink
          "\<lparr>Name = ''eth0'', Disabled = False\<rparr>" "exStack\<lparr>nics := [(1, exNIC 1)]\<rparr>"]
  by (simp add: HasNIC_def exNIC_def exStack_def)

text \<open>
  C8. On a stack whose raw factory is nil, \<^verbatim>\<open>NewRawEndpoint\<close> and \<^verbatim>\<open>NewPacketEndpoint\<close>
  return no endpoint and the error \<^verbatim>\<open>NotPermitted\<close>, whatever their arguments.
\<close>

theorem raw_endpoints_need_factory:
  "rawFactory s = None \<Longrightarrow>
     NewRawEndpoint s transport network waiterQueue associated = (None, Some ErrNotPermitted) \<and>
     NewPacketEndpoint s cooked netProto waiterQueue' = (None, Some ErrNotPermitted)"
  by (simp add: NewRawEndpoint_def NewPacketEndpoint_def)

theorem raw_endpoints_need_factory_witness:
  "rawFactory exStack = None \<and>
   NewRawEndpoint exStack 6 0x0800 0 True = (None, Some ErrNotPermitted) \<and>
   NewPacketEndpoint exStack False 0x0800 0 = (None, Some ErrNotPermitted)"
  using raw_endpoints_need_factory [of exStack 6 "0x0800" 0 True False "0x0800" 0]
  by (simp add: exStack_def)

subsection \<open>Local addresses and moving a NIC\<close>

text \<open>
  C9. When the stack holds under \<open>nicID\<close>, which is not 0, a NIC with that id,
  \<^verbatim>\<open>CheckLocalAddress(nicID, IPv4, addr)\<close> returns \<open>nicID\<close> for every address, whatever the
  NIC says about the address. For another protocol the answer is \<open>nicID\<close> only when the
  NIC has the address, and for \<open>nicID\<close> 0 it is the id of the first NIC that has it.
\<close>

theorem CheckLocalAddress_IPv4_ignores_address:
  "(nicID \<noteq> 0 \<and> map_of (nics s) nicID = Some n \<and> nic_id n = nicID \<longrightarrow>
      CheckLocalAddress s nicID IPv4ProtocolNumber addr = nicID \<and>
      (protocol \<noteq> IPv4ProtocolNumber \<longrightarrow>
         CheckLocalAddress s nicID protocol addr =
           (if nic_CheckLocalAddress n protocol addr then nicID else 0))) \<and>
   CheckLocalAddress s 0 protocol addr =
     (case find (\<lambda>n. nic_CheckLocalAddress n protocol addr) (map snd (nics s)) of
        Some n \<Rightarrow> nic_id n
      | None \<Rightarrow> 0)"
  by (simp add: CheckLocalAddress_def)

text \<open>NIC 1 has no address: for IPv4 the answer is 1 all the same, for IPv6 it is 0.\<close>

theorem CheckLocalAddress_IPv4_ignores_address_witness:
  "(1::NICID) \<noteq> 0 \<and> map_of (nics (exStack\<lparr>nics := [(1, exNIC 1)]\<rparr>)) 1 = Some (exNIC 1) \<and>
   nic_id (exNIC 1) = 1 \<and>
   \<not> nic_CheckLocalAddress (exNIC 1) IPv4ProtocolNumber [10, 0, 0, 1] \<and>
   CheckLocalAddress (exStack\<lparr>nics := [(1, exNIC 1)]\<rparr>) 1 IPv4ProtocolNumber [10, 0, 0, 1] = 1 \<and>
   CheckLocalAddress (exStack\<lparr>nics := [(1, exNIC 1)]\<rparr>) 1 0x86dd [10, 0, 0, 1] = 0"
  using CheckLocalAddress_IPv4_ignores_address
          [where nicID = 1 and s = "exStack\<lparr>nics := [(1, exNIC 1)]\<rparr>" and n = "exNIC 1"
             and protocol = "0x86dd" and addr = "[10, 0, 0, 1]"]
  by (simp add: exNIC_def exStack_def IPv4ProtocolNumber_def)

text \<open>
  C10. When the stack at \<open>sp\<close> holds the NIC, \<^verbatim>\<open>SetNICStack\<close> with that same stack as peer
  returns the id and no error and leaves the store as it was: the NIC map, the route
  table and the record of calls on the NIC and its link endpoint (no \<^verbatim>\<open>remove\<close>, no
  deferred close) are unchanged.
\<close>

theorem SetNICStack_same_stack:
  "HasNIC (st sp) nid \<Longrightarrow> SetNICStack nd st sp nid sp = Return ((nid, None), st)"
  by (auto simp: SetNICStack_def HasNIC_def split: option.splits)

theorem SetNICStack_same_stack_witness:
  "HasNIC ((\<lambda>_. exStack\<lparr>nics := [(1, exNIC 1)], routeTable := [exRoute 8 1]\<rparr>) 0) 1 \<and>
   SetNICStack exNicDeps (\<lambda>_. exStack\<lparr>nics := [(1, exNIC 1)], routeTable := [exRoute 8 1]\<rparr>) 0 1 0
     = Return ((1, None), (\<lambda>_. exStack\<lparr>nics := [(1, exNIC 1)], routeTable := [exRoute 8 1]\<rparr>))"
  using SetNICStack_same_stack
          [of "\<lambda>_. exStack\<lparr>nics := [(1, exNIC 1)], routeTable := [exRoute 8 1]\<rparr>" 0 1 exNicDeps]
  by (simp add: HasNIC_def exStack_def)

end
